theory Spec2Isabelle
  imports Main "HOL-Library.Sublist"
begin

section \<open>Python strings\<close>

text \<open>
  A Python \<open>str\<close> is a sequence of Unicode code points, so it is modelled as a list of
  natural numbers.  ASCII literals of the source are written with \<open>py\<close>; the few
  non-ASCII letters of the Portuguese messages are written as their code points
  (\<open>237\<close> is i-acute, \<open>227\<close> is a-tilde).
\<close>

type_synonym pystr = "nat list"

definition py :: "string \<Rightarrow> pystr" where
  "py s = map of_char s"

text \<open>\<open>str(n)\<close> for an integer: the decimal digits, with a minus sign when negative.\<close>

fun digits :: "nat \<Rightarrow> pystr" where
  "digits n = (if n < 10 then [48 + n] else digits (n div 10) @ [48 + n mod 10])"

definition str_int :: "int \<Rightarrow> pystr" where
  "str_int i = (if i < 0 then 45 # digits (nat (- i)) else digits (nat i))"

text \<open>\<open>sep.join(xs)\<close>.\<close>

fun join :: "pystr \<Rightarrow> pystr list \<Rightarrow> pystr" where
  "join sep [] = []"
| "join sep [x] = x"
| "join sep (x # y # ys) = x @ sep @ join sep (y # ys)"

text \<open>\<open>s.startswith(p)\<close> and \<open>sub in s\<close>.\<close>

definition startswith :: "pystr \<Rightarrow> pystr \<Rightarrow> bool" where
  "startswith s p = prefix p s"

fun contains :: "pystr \<Rightarrow> pystr \<Rightarrow> bool" where
  "contains sub [] = (sub = [])"
| "contains sub (c # cs) = (prefix sub (c # cs) \<or> contains sub cs)"

text \<open>
  \<open>s.split(sep)\<close> for a non-empty separator: scan from the left, cut at each
  occurrence and go on after it.  \<open>k\<close> counts the characters of a matched separator
  still to be skipped, \<open>cur\<close> is the current piece, reversed.
\<close>

fun split_aux :: "pystr \<Rightarrow> nat \<Rightarrow> pystr \<Rightarrow> pystr \<Rightarrow> pystr list" where
  "split_aux sep k cur [] = [rev cur]"
| "split_aux sep k cur (c # cs) =
     (if 0 < k then split_aux sep (k - 1) cur cs
      else if prefix sep (c # cs) then rev cur # split_aux sep (length sep - 1) [] cs
      else split_aux sep 0 (c # cur) cs)"

definition split :: "pystr \<Rightarrow> pystr \<Rightarrow> pystr list" where
  "split s sep = split_aux sep 0 [] s"

text \<open>
  \<open>str.isalnum\<close> on one character.  On ASCII it is the digits and the letters; beyond
  ASCII the answer comes from the interpreter's Unicode database, which is a parameter
  \<open>U\<close> of the model.
\<close>

definition isalnum :: "(nat \<Rightarrow> bool) \<Rightarrow> nat \<Rightarrow> bool" where
  "isalnum U c =
     (if c < 128 then (48 \<le> c \<and> c \<le> 57) \<or> (65 \<le> c \<and> c \<le> 90) \<or> (97 \<le> c \<and> c \<le> 122)
      else U c)"

text \<open>
  \<open>str.isspace\<close> on one character, as \<open>str.strip()\<close> uses it: the ASCII white space
  (tab to carriage return, the four separators 28 to 31, the blank) and the Unicode
  white-space code points.
\<close>

definition isspace :: "nat \<Rightarrow> bool" where
  "isspace c =
     ((9 \<le> c \<and> c \<le> 13) \<or> (28 \<le> c \<and> c \<le> 32) \<or> c = 133 \<or> c = 160 \<or> c = 5760
      \<or> (8192 \<le> c \<and> c \<le> 8202) \<or> c = 8232 \<or> c = 8233 \<or> c = 8239 \<or> c = 8287
      \<or> c = 12288)"

definition lstrip :: "pystr \<Rightarrow> pystr" where
  "lstrip s = dropWhile isspace s"

definition rstrip :: "pystr \<Rightarrow> pystr" where
  "rstrip s = rev (dropWhile isspace (rev s))"

definition strip :: "pystr \<Rightarrow> pystr" where
  "strip s = rstrip (lstrip s)"

section \<open>Title sanitization (download\_video, lines 193 to 195)\<close>

text \<open>The literal \<open>' -_.,()[]{}'\<close> of the membership test.\<close>

definition allowed_chars :: pystr where
  "allowed_chars = py '' -_.,()[]{}''"

definition keep_char :: "(nat \<Rightarrow> bool) \<Rightarrow> nat \<Rightarrow> bool" where
  "keep_char U c = (isalnum U c \<or> c \<in> set allowed_chars)"

definition safe_title :: "(nat \<Rightarrow> bool) \<Rightarrow> pystr \<Rightarrow> pystr" where
  "safe_title U video_title = strip (filter (keep_char U) video_title)"

section \<open>Paths (os.path, POSIX flavour)\<close>

text \<open>The separator \<open>/\<close> is code point 47, the extension separator \<open>.\<close> is 46.\<close>

definition os_path_join :: "pystr \<Rightarrow> pystr \<Rightarrow> pystr" where
  "os_path_join a b =
     (if startswith b [47] then b
      else if a = [] \<or> last a = 47 then a @ b
      else a @ [47] @ b)"

definition basename :: "pystr \<Rightarrow> pystr" where
  "basename p = rev (takeWhile (\<lambda>c. c \<noteq> 47) (rev p))"

text \<open>
  \<open>os.path.splitext\<close>: split at the last dot of the last path component, unless that
  component has nothing but dots before it.
\<close>

definition splitext :: "pystr \<Rightarrow> pystr \<times> pystr" where
  "splitext p =
     (let name = basename p;
          suffix = rev (takeWhile (\<lambda>c. c \<noteq> 46) (rev name));
          stem = take (length name - length suffix - 1) name
      in if 46 \<in> set name \<and> list_ex (\<lambda>c. c \<noteq> 46) stem
         then (take (length p - length suffix - 1) p, 46 # suffix)
         else (p, []))"

section \<open>Python values of the program\<close>

text \<open>
  Every exception the program meets is an instance of \<open>Exception\<close>, so each
  \<open>except Exception\<close> catches it.  An exception is its class and the text \<open>str(e)\<close>.
\<close>

datatype exc_class = Exception | NameError | TypeError | OtherError

datatype pyexc = Raised exc_class pystr

fun str_exc :: "pyexc \<Rightarrow> pystr" where
  "str_exc (Raised c msg) = msg"

text \<open>A key of a dictionary: absent, bound to \<open>None\<close>, or bound to a value.\<close>

datatype 'a field = Absent | PyNone | Val 'a

text \<open>\<open>d.get(k)\<close> and \<open>d.get(k, default)\<close>; the result \<open>None\<close> is Python's \<open>None\<close>.\<close>

fun get :: "'a field \<Rightarrow> 'a option" where
  "get Absent = None"
| "get PyNone = None"
| "get (Val v) = Some v"

fun get_default :: "'a field \<Rightarrow> 'a \<Rightarrow> 'a option" where
  "get_default Absent d = Some d"
| "get_default PyNone d = None"
| "get_default (Val v) d = Some v"

text \<open>
  A raw format of the extraction library, with the keys the program reads.  The library
  gives every format a \<open>format_id\<close>, which the program subscripts without a default.  The
  fields carry the prefix \<open>fmt\<close>, those of the information dictionary the prefix \<open>info\<close>.
\<close>

record raw_format =
  fmt_format_id :: pystr
  fmt_ext :: "pystr field"
  fmt_height :: "int field"
  fmt_acodec :: "pystr field"
  fmt_format_note :: "pystr field"

text \<open>The information dictionary of a video, with the keys the program reads or writes.\<close>

record info =
  info_id :: "pystr field"
  info_title :: "pystr field"
  info_uploader :: "pystr field"
  info_formats :: "raw_format list field"

text \<open>A format choice offered to the caller (the dictionaries built in lines 114 to 139).\<close>

record format_choice =
  choice_id :: pystr
  choice_ext :: pystr
  choice_description :: pystr
  choice_format_note :: "pystr option"
  choice_format :: "raw_format option"

record postprocessor =
  key :: pystr
  preferredcodec :: pystr
  preferredquality :: pystr

datatype hook = Progress_hook

text \<open>The options dictionary handed to the extraction library; \<open>None\<close> is an absent key.\<close>

record ydl_opts =
  quiet :: bool
  no_warnings :: bool
  ignoreerrors :: bool
  no_check_certificate :: bool
  windowsfilenames :: bool
  prefer_ffmpeg :: bool
  geo_bypass :: bool
  age_limit :: int
  nocheckcertificate :: bool
  skip_download :: "bool option"
  format :: "pystr option"
  outtmpl :: "pystr option"
  progress_hooks :: "hook list option"
  noplaylist :: "bool option"
  postprocessors :: "postprocessor list option"

section \<open>The outside world\<close>

text \<open>
  The extraction library and the file system are parameters.  A call of the library may
  change the world \<open>'w\<close>; it returns a value or raises.  \<open>extract_info\<close> returns the
  information dictionary or \<open>None\<close>; \<open>download\<close> returns the library's error code.
\<close>

record 'w env =
  unicode_alnum :: "nat \<Rightarrow> bool"
  extract_info :: "'w \<Rightarrow> ydl_opts \<Rightarrow> pystr \<Rightarrow> 'w \<times> (pyexc + info option)"
  download :: "'w \<Rightarrow> ydl_opts \<Rightarrow> pystr list \<Rightarrow> 'w \<times> (pyexc + int)"
  os_path_exists :: "'w \<Rightarrow> pystr \<Rightarrow> bool"
  os_listdir :: "'w \<Rightarrow> pystr \<Rightarrow> pyexc + pystr list"

text \<open>The calls of the library made so far are recorded next to the world.\<close>

datatype call = ExtractInfo ydl_opts pystr | Download ydl_opts "pystr list"

record 'w state =
  world :: 'w
  calls :: "call list"

section \<open>utils/config.py\<close>

definition MP3_FORMAT :: format_choice where
  "MP3_FORMAT =
     \<lparr>choice_id = py ''bestaudio/best'', choice_ext = py ''mp3'',
      choice_description = py ''Melhor qualidade (MP3)'',
      choice_format_note = Some (py ''Audio''), choice_format = None\<rparr>"

definition WAV_FORMAT :: format_choice where
  "WAV_FORMAT =
     \<lparr>choice_id = py ''bestaudio/best'', choice_ext = py ''wav'',
      choice_description = py ''Alta fidelidade (WAV)'',
      choice_format_note = Some (py ''Audio''), choice_format = None\<rparr>"

definition get_default_options :: ydl_opts where
  "get_default_options =
     \<lparr>quiet = True, no_warnings = True, ignoreerrors = True, no_check_certificate = True,
      windowsfilenames = True, prefer_ffmpeg = True, geo_bypass = True, age_limit = 99,
      nocheckcertificate = True, skip_download = None, format = None, outtmpl = None,
      progress_hooks = None, noplaylist = None, postprocessors = None\<rparr>"

text \<open>An entry of the presets table, with the two keys \<open>get_fallback_formats\<close> reads.\<close>

record preset =
  preset_id :: pystr
  preset_description :: pystr

text \<open>
  \<open>get_fallback_formats\<close> reads the global name \<open>MP4_QUALITY_PRESETS\<close>.  The lookup of
  a global is a parameter here: \<open>None\<close> is a name the module does not bind, and reading
  it raises \<open>NameError\<close>.
\<close>

definition get_fallback_formats_with :: "preset list option \<Rightarrow> pyexc + format_choice list" where
  "get_fallback_formats_with presets =
     (case presets of
        None \<Rightarrow> Inl (Raised NameError (py ''name '' @ [39] @ py ''MP4_QUALITY_PRESETS'' @ [39]
                       @ py '' is not defined''))
      | Some ps \<Rightarrow>
          Inr (map (\<lambda>p. \<lparr>choice_id = preset_id p, choice_ext = py ''mp4'',
                         choice_description = preset_description p,
                         choice_format_note = Some (py ''Fallback''), choice_format = None\<rparr>) ps
               @ [MP3_FORMAT, WAV_FORMAT]))"

text \<open>
  No statement of utils/config.py binds \<open>MP4_QUALITY_PRESETS\<close>: the module defines
  \<open>CONFIG_DIR\<close>, \<open>CONFIG_FILE\<close>, \<open>DEFAULT_CONFIG\<close>, \<open>MP3_FORMAT\<close>, \<open>WAV_FORMAT\<close>
  and its functions, and imports \<open>os\<close>, \<open>json\<close> and three names of \<open>typing\<close>.
\<close>

definition MP4_QUALITY_PRESETS :: "preset list option" where
  "MP4_QUALITY_PRESETS = None"

definition get_fallback_formats :: "pyexc + format_choice list" where
  "get_fallback_formats = get_fallback_formats_with MP4_QUALITY_PRESETS"

section \<open>core/downloader.py\<close>

definition get_ydl_opts :: "bool \<Rightarrow> ydl_opts" where
  "get_ydl_opts skip = get_default_options\<lparr>skip_download := Some skip\<rparr>"

text \<open>The messages of the source, with their accented letters as code points.\<close>

definition msg_no_info :: pystr where
  "msg_no_info = py ''N'' @ [227] @ py ''o foi poss'' @ [237] @ py ''vel obter informa''
                 @ [231, 245] @ py ''es do v'' @ [237] @ py ''deo''"

definition msg_info_error :: pystr where
  "msg_info_error = py ''Erro ao obter informa'' @ [231, 245] @ py ''es do v'' @ [237] @ py ''deo: ''"

definition msg_formats_error :: pystr where
  "msg_formats_error = py ''Erro ao obter formatos dispon'' @ [237] @ py ''veis: ''"

definition msg_download_error :: pystr where
  "msg_download_error = py ''Erro ao baixar v'' @ [237] @ py ''deo: ''"

definition msg_error_code :: "int \<Rightarrow> pystr" where
  "msg_error_code n = py ''Erro ao baixar v'' @ [237] @ py ''deo (c'' @ [243] @ py ''digo ''
                      @ str_int n @ py '')''"

definition msg_not_created :: pystr where
  "msg_not_created = py ''Arquivo n'' @ [227] @ py ''o foi criado ap'' @ [243] @ py ''s o download''"

definition msg_batch :: pystr where
  "msg_batch = py ''Erros durante o download em lote:'' @ [10]"

definition msg_item :: "pystr \<Rightarrow> pyexc \<Rightarrow> pystr" where
  "msg_item url e = py ''Erro ao baixar '' @ url @ py '': '' @ str_exc e"

text \<open>Lines 69 to 78.\<close>

definition get_video_info :: "'w env \<Rightarrow> pystr \<Rightarrow> 'w state \<Rightarrow> (pyexc + info) \<times> 'w state" where
  "get_video_info E url s =
     (let ydl_opts = get_ydl_opts True;
          (w, r) = extract_info E (world s) ydl_opts url;
          s' = \<lparr>world = w, calls = calls s @ [ExtractInfo ydl_opts url]\<rparr>
      in case r of
           Inl e \<Rightarrow> (Inl (Raised Exception (msg_info_error @ str_exc e)), s')
         | Inr None \<Rightarrow> (Inl (Raised Exception (msg_info_error @ msg_no_info)), s')
         | Inr (Some info) \<Rightarrow> (Inr info, s'))"

text \<open>The comprehension of lines 97 and 98.\<close>

definition is_video_format :: "raw_format \<Rightarrow> bool" where
  "is_video_format f =
     (get (fmt_ext f) = Some (py ''mp4'') \<and> get (fmt_height f) \<noteq> None \<and> get (fmt_acodec f) \<noteq> Some (py ''none''))"

text \<open>The sort key of line 105, \<open>x.get('height', 0) or 0\<close>.\<close>

definition height_key :: "raw_format \<Rightarrow> int" where
  "height_key x = (case get_default (fmt_height x) 0 of None \<Rightarrow> 0 | Some h \<Rightarrow> if h = 0 then 0 else h)"

text \<open>
  \<open>list.sort(key=..., reverse=True)\<close> is stable: entries with equal keys keep their
  order.  It is the stable ascending sort on the negated key.
\<close>

definition sort_reverse :: "('a \<Rightarrow> int) \<Rightarrow> 'a list \<Rightarrow> 'a list" where
  "sort_reverse k xs = sort_key (\<lambda>x. - k x) xs"

definition video_choice :: "raw_format \<Rightarrow> int \<Rightarrow> format_choice" where
  "video_choice fmt h =
     \<lparr>choice_id = fmt_format_id fmt, choice_ext = py ''mp4'',
      choice_description = str_int h @ py ''p (MP4)'',
      choice_format_note = get_default (fmt_format_note fmt) [], choice_format = Some fmt\<rparr>"

text \<open>The loop of lines 108 to 121, with its two variables.\<close>

fun add_formats :: "raw_format list \<Rightarrow> format_choice list \<Rightarrow> pystr set \<Rightarrow> format_choice list" where
  "add_formats [] formats added_resolutions = formats"
| "add_formats (fmt # rest) formats added_resolutions =
     (case get (fmt_height fmt) of
        None \<Rightarrow> add_formats rest formats added_resolutions
      | Some h \<Rightarrow>
          if h \<noteq> 0 \<and> length formats < 5 then
            (let resolution_key = str_int h in
             if resolution_key \<notin> added_resolutions
             then add_formats rest (formats @ [video_choice fmt h])
                    (insert resolution_key added_resolutions)
             else add_formats rest formats added_resolutions)
          else add_formats rest formats added_resolutions)"

definition audio_mp3 :: format_choice where
  "audio_mp3 =
     \<lparr>choice_id = py ''bestaudio/best'', choice_ext = py ''mp3'',
      choice_description = py ''Melhor qualidade (MP3)'',
      choice_format_note = Some (py ''Audio''), choice_format = None\<rparr>"

definition audio_wav :: format_choice where
  "audio_wav =
     \<lparr>choice_id = py ''bestaudio/best'', choice_ext = py ''wav'',
      choice_description = py ''Alta fidelidade (WAV)'',
      choice_format_note = Some (py ''Audio''), choice_format = None\<rparr>"

text \<open>Lines 102 to 139: the list built from the formats that passed the filter.\<close>

definition build_formats :: "raw_format list \<Rightarrow> format_choice list" where
  "build_formats video_formats =
     add_formats (sort_reverse height_key video_formats) [] {} @ [audio_mp3, audio_wav]"

text \<open>The dictionary of line 159.\<close>

definition placeholder_info :: "pystr \<Rightarrow> info" where
  "placeholder_info url =
     \<lparr>info_id = Val url, info_title = Val (py ''V'' @ [237] @ py ''deo do YouTube''),
      info_uploader = Val (py ''Desconhecido''), info_formats = Absent\<rparr>"

text \<open>
  Lines 148 to 161, the handler of the inner \<open>try\<close>.  An exception raised inside the
  handler reaches the outer handler of lines 163 and 164.
\<close>

definition formats_handler ::
  "preset list option \<Rightarrow> 'w env \<Rightarrow> pystr \<Rightarrow> 'w state
     \<Rightarrow> (pyexc + format_choice list \<times> info) \<times> 'w state" where
  "formats_handler presets E url s =
     (case get_fallback_formats_with presets of
        Inl e \<Rightarrow> (Inl (Raised Exception (msg_formats_error @ str_exc e)), s)
      | Inr fs \<Rightarrow>
          (let (r, s') = get_video_info E url s
           in case r of
                Inl e \<Rightarrow> (Inr (fs, placeholder_info url), s')
              | Inr info \<Rightarrow> (Inr (fs, info), s')))"

text \<open>
  Lines 93 to 164.  Iterating the value \<open>None\<close> of the key \<open>formats\<close> raises
  \<open>TypeError\<close> inside the inner \<open>try\<close>, as a failing call does.
\<close>

definition get_available_formats_with ::
  "preset list option \<Rightarrow> 'w env \<Rightarrow> pystr \<Rightarrow> 'w state
     \<Rightarrow> (pyexc + format_choice list \<times> info) \<times> 'w state" where
  "get_available_formats_with presets E url s =
     (let (r, s1) = get_video_info E url s
      in case r of
           Inl e \<Rightarrow> formats_handler presets E url s1
         | Inr info \<Rightarrow>
             (case get_default (info_formats info) [] of
                None \<Rightarrow> formats_handler presets E url s1
              | Some raw \<Rightarrow>
                  (let video_formats = filter is_video_format raw
                   in if video_formats \<noteq> [] then (Inr (build_formats video_formats, info), s1)
                      else (case get_fallback_formats_with presets of
                              Inl e \<Rightarrow> formats_handler presets E url s1
                            | Inr fs \<Rightarrow> (Inr (fs, info), s1)))))"

definition get_available_formats ::
  "'w env \<Rightarrow> pystr \<Rightarrow> 'w state \<Rightarrow> (pyexc + format_choice list \<times> info) \<times> 'w state" where
  "get_available_formats E url s = get_available_formats_with MP4_QUALITY_PRESETS E url s"

text \<open>The name used when the title cannot be probed (line 191).\<close>

definition fallback_title :: "pystr \<Rightarrow> pystr" where
  "fallback_title url =
     py ''youtube_video_''
     @ (if contains (py ''v='') url then last (split url (py ''v='')) else py ''download'')"

text \<open>Lines 203 to 233: the options of the transfer.\<close>

definition download_opts :: "pystr \<Rightarrow> pystr \<Rightarrow> pystr \<Rightarrow> ydl_opts" where
  "download_opts output_file format_id ext =
     (let ydl_opts = (get_ydl_opts False)
            \<lparr>format := Some format_id, outtmpl := Some output_file,
             progress_hooks := Some [Progress_hook], noplaylist := Some True\<rparr>
      in if ext = py ''mp3'' then
           ydl_opts\<lparr>postprocessors :=
                      Some [\<lparr>key = py ''FFmpegExtractAudio'', preferredcodec = py ''mp3'',
                             preferredquality = py ''192''\<rparr>],
                    format := Some (py ''bestaudio/best'')\<rparr>
         else if ext = py ''wav'' then
           ydl_opts\<lparr>postprocessors :=
                      Some [\<lparr>key = py ''FFmpegExtractAudio'', preferredcodec = py ''wav'',
                             preferredquality = py ''best''\<rparr>],
                    format := Some (py ''bestaudio/best'')\<rparr>
         else ydl_opts)"

text \<open>Lines 241 to 255: the file that is returned after a transfer with code 0.\<close>

definition locate_output :: "'w env \<Rightarrow> 'w \<Rightarrow> pystr \<Rightarrow> pystr \<Rightarrow> pyexc + pystr" where
  "locate_output E w output_path output_file =
     (if \<not> os_path_exists E w output_file then
        (let base_output = fst (splitext output_file)
         in case os_listdir E w output_path of
              Inl e \<Rightarrow> Inl e
            | Inr entries \<Rightarrow>
                (case filter (\<lambda>f. startswith f (basename base_output)) entries of
                   [] \<Rightarrow> Inl (Raised Exception msg_not_created)
                 | f # _ \<Rightarrow> Inr (os_path_join output_path f)))
      else Inr output_file)"

text \<open>The handler of lines 257 and 258, applied to the outcome of the \<open>try\<close> body.\<close>

definition download_error :: "pyexc \<Rightarrow> pyexc" where
  "download_error e = Raised Exception (msg_download_error @ str_exc e)"

definition catch_download :: "pyexc + pystr \<Rightarrow> pyexc + pystr" where
  "catch_download r = (case r of Inl e \<Rightarrow> Inl (download_error e) | Inr file \<Rightarrow> Inr file)"

text \<open>
  Lines 186 to 191: the title, from the outcome of the probe.  The result \<open>None\<close> is a
  title bound to Python's \<open>None\<close>.
\<close>

definition probe_title :: "pyexc + info \<Rightarrow> pystr \<Rightarrow> pystr option" where
  "probe_title r url =
     (case r of
        Inl e \<Rightarrow> Some (fallback_title url)
      | Inr info \<Rightarrow> get_default (info_title info) (py ''video''))"

text \<open>
  Lines 197 and 198.  \<open>filename\<close> is \<open>None\<close> or a string; \<open>not filename\<close> holds of
  \<open>None\<close> and of the empty string.
\<close>

definition choose_filename :: "pystr \<Rightarrow> pystr \<Rightarrow> pystr option \<Rightarrow> pystr" where
  "choose_filename safe ext filename =
     (case filename of
        None \<Rightarrow> safe @ py ''.'' @ ext
      | Some f \<Rightarrow> if f = [] then safe @ py ''.'' @ ext else f)"

text \<open>Lines 236 to 255: what follows the call of the library.\<close>

definition after_transfer :: "'w env \<Rightarrow> 'w \<Rightarrow> pystr \<Rightarrow> pystr \<Rightarrow> pyexc + int \<Rightarrow> pyexc + pystr" where
  "after_transfer E w output_path output_file r =
     (case r of
        Inl e \<Rightarrow> Inl e
      | Inr error_code \<Rightarrow>
          if error_code \<noteq> 0 then Inl (Raised Exception (msg_error_code error_code))
          else locate_output E w output_path output_file)"

text \<open>
  Lines 184 to 258.  Iterating a title bound to \<open>None\<close> raises \<open>TypeError\<close> before
  the library is called for the transfer.
\<close>

definition download_video ::
  "'w env \<Rightarrow> pystr \<Rightarrow> pystr \<Rightarrow> pystr \<Rightarrow> pystr \<Rightarrow> pystr option \<Rightarrow> 'w state
     \<Rightarrow> (pyexc + pystr) \<times> 'w state" where
  "download_video E url output_path format_id ext filename s =
     (let (r, s1) = get_video_info E url s
      in case probe_title r url of
           None \<Rightarrow>
             (catch_download (Inl (Raised TypeError
                ([39] @ py ''NoneType'' @ [39] @ py '' object is not iterable''))), s1)
         | Some video_title \<Rightarrow>
             (let filename = choose_filename (safe_title (unicode_alnum E) video_title) ext filename;
                  output_file = os_path_join output_path filename;
                  ydl_opts = download_opts output_file format_id ext;
                  (w, r2) = download E (world s1) ydl_opts [url];
                  s2 = \<lparr>world = w, calls = calls s1 @ [Download ydl_opts [url]]\<rparr>
              in (catch_download (after_transfer E w output_path output_file r2), s2)))"

text \<open>The loop of lines 280 to 285, with its two lists.\<close>

fun download_loop ::
  "'w env \<Rightarrow> pystr list \<Rightarrow> pystr \<Rightarrow> pystr \<Rightarrow> pystr \<Rightarrow> pystr list \<Rightarrow> pystr list \<Rightarrow> 'w state
     \<Rightarrow> pystr list \<times> pystr list \<times> 'w state" where
  "download_loop E [] output_path format_id ext downloaded_files errors s =
     (downloaded_files, errors, s)"
| "download_loop E (url # urls) output_path format_id ext downloaded_files errors s =
     (case download_video E url output_path format_id ext None s of
        (Inr file_path, s') \<Rightarrow>
          download_loop E urls output_path format_id ext (downloaded_files @ [file_path]) errors s'
      | (Inl e, s') \<Rightarrow>
          download_loop E urls output_path format_id ext downloaded_files
            (errors @ [msg_item url e]) s')"

text \<open>Lines 277 to 291.\<close>

definition download_multiple ::
  "'w env \<Rightarrow> pystr list \<Rightarrow> pystr \<Rightarrow> pystr \<Rightarrow> pystr \<Rightarrow> 'w state
     \<Rightarrow> (pyexc + pystr list) \<times> 'w state" where
  "download_multiple E urls output_path format_id ext s =
     (case download_loop E urls output_path format_id ext [] [] s of
        (downloaded_files, errors, s') \<Rightarrow>
          if errors \<noteq> [] then (Inl (Raised Exception (msg_batch @ join [10] errors)), s')
          else (Inr downloaded_files, s'))"

text \<open>The calls added between two states.\<close>

definition new_calls :: "'w state \<Rightarrow> 'w state \<Rightarrow> call list" where
  "new_calls s s' = drop (length (calls s)) (calls s')"

section \<open>Concrete worlds\<close>

text \<open>
  A world for evaluating the program: the world is the number of library calls made so
  far, the answers of the library are given by \<open>probe\<close> and \<open>transfer\<close>, the file
  system holds the paths \<open>files\<close>, and every directory lists \<open>entries\<close>.  No character
  beyond ASCII counts as alphanumeric in it.
\<close>

definition sim_env ::
  "(nat \<Rightarrow> pystr \<Rightarrow> pyexc + info option) \<Rightarrow> (nat \<Rightarrow> pystr list \<Rightarrow> pyexc + int)
     \<Rightarrow> pystr list \<Rightarrow> pystr list \<Rightarrow> nat env" where
  "sim_env probe transfer files entries =
     \<lparr>unicode_alnum = (\<lambda>c. False),
      extract_info = (\<lambda>w opts url. (Suc w, probe w url)),
      download = (\<lambda>w opts urls. (Suc w, transfer w urls)),
      os_path_exists = (\<lambda>w p. p \<in> set files),
      os_listdir = (\<lambda>w p. Inr entries)\<rparr>"

definition start :: "nat state" where
  "start = \<lparr>world = 0, calls = []\<rparr>"

definition offline :: "nat \<Rightarrow> pystr \<Rightarrow> pyexc + info option" where
  "offline w url = Inl (Raised OtherError (py ''network unreachable''))"

definition song :: "nat \<Rightarrow> pystr \<Rightarrow> pyexc + info option" where
  "song w url =
     Inr (Some \<lparr>info_id = Val (py ''x1''), info_title = Val (py ''My Song!''),
                info_uploader = Val (py ''me''), info_formats = Val []\<rparr>)"

definition transfer_ok :: "nat \<Rightarrow> pystr list \<Rightarrow> pyexc + int" where
  "transfer_ok w urls = Inr 0"

definition untitled :: "nat \<Rightarrow> pystr \<Rightarrow> pyexc + info option" where
  "untitled w url =
     Inr (Some \<lparr>info_id = Val (py ''x2''), info_title = Val [],
                info_uploader = Val (py ''me''), info_formats = Val []\<rparr>)"

section \<open>Notions for stating the batch download\<close>

text \<open>
  The result of each download of a batch, in the order of the list, each started in the
  state its predecessor left; then the failed and the successful ones among them, and the
  URLs of the probes in a list of calls.
\<close>

fun outcomes ::
  "'w env \<Rightarrow> pystr list \<Rightarrow> pystr \<Rightarrow> pystr \<Rightarrow> pystr \<Rightarrow> 'w state
     \<Rightarrow> (pystr \<times> (pyexc + pystr)) list" where
  "outcomes E [] output_path format_id ext s = []"
| "outcomes E (url # urls) output_path format_id ext s =
     (case download_video E url output_path format_id ext None s of
        (r, s') \<Rightarrow> (url, r) # outcomes E urls output_path format_id ext s')"

fun failures :: "(pystr \<times> (pyexc + pystr)) list \<Rightarrow> (pystr \<times> pyexc) list" where
  "failures [] = []"
| "failures ((url, Inl e) # rest) = (url, e) # failures rest"
| "failures ((url, Inr file) # rest) = failures rest"

fun successes :: "(pystr \<times> (pyexc + pystr)) list \<Rightarrow> pystr list" where
  "successes [] = []"
| "successes ((url, Inl e) # rest) = successes rest"
| "successes ((url, Inr file) # rest) = file # successes rest"

fun probed :: "call list \<Rightarrow> pystr list" where
  "probed [] = []"
| "probed (ExtractInfo opts url # cs) = url # probed cs"
| "probed (Download opts urls # cs) = probed cs"

text \<open>A transfer that fails with code 1 for the URL \<open>u2\<close> and succeeds for any other.\<close>

definition transfer_but_u2 :: "nat \<Rightarrow> pystr list \<Rightarrow> pyexc + int" where
  "transfer_but_u2 w urls = (if urls = [py ''u2''] then Inr 1 else Inr 0)"

section \<open>Notions for stating format resolution\<close>

text \<open>
  The height of a choice that was built from a raw format, and the heights of the raw
  formats that pass the filter of lines 97 and 98.
\<close>

definition choice_height :: "format_choice \<Rightarrow> int option" where
  "choice_height c = (case choice_format c of None \<Rightarrow> None | Some f \<Rightarrow> get (fmt_height f))"

definition video_heights :: "raw_format list \<Rightarrow> int list" where
  "video_heights raw = List.map_filter (\<lambda>f. get (fmt_height f)) (filter is_video_format raw)"

text \<open>Raw formats for evaluation: an mp4 format with audio, and a video-only one.\<close>

definition mp4_format :: "pystr \<Rightarrow> int \<Rightarrow> raw_format" where
  "mp4_format fid h =
     \<lparr>fmt_format_id = fid, fmt_ext = Val (py ''mp4''), fmt_height = Val h,
      fmt_acodec = Val (py ''mp4a.40.2''), fmt_format_note = Absent\<rparr>"

definition video_only_format :: "pystr \<Rightarrow> int \<Rightarrow> raw_format" where
  "video_only_format fid h =
     \<lparr>fmt_format_id = fid, fmt_ext = Val (py ''mp4''), fmt_height = Val h,
      fmt_acodec = Val (py ''none''), fmt_format_note = Absent\<rparr>"

definition raw_seven :: "raw_format list" where
  "raw_seven =
     [mp4_format (py ''18'') 360, video_only_format (py ''401'') 2160,
      mp4_format (py ''22'') 720, mp4_format (py ''59'') 480, mp4_format (py ''22b'') 720,
      mp4_format (py ''37'') 1080, mp4_format (py ''17'') 144, mp4_format (py ''5'') 240]"

definition raw_with_zero :: "raw_format list" where
  "raw_with_zero =
     [mp4_format (py ''a'') 0, mp4_format (py ''b'') 144, mp4_format (py ''c'') 240,
      mp4_format (py ''d'') 360, mp4_format (py ''e'') 480]"

definition listing :: "raw_format list \<Rightarrow> info" where
  "listing raw =
     \<lparr>info_id = Val (py ''x3''), info_title = Val (py ''Clip''),
      info_uploader = Val (py ''me''), info_formats = Val raw\<rparr>"

definition probe_listing :: "raw_format list \<Rightarrow> nat \<Rightarrow> pystr \<Rightarrow> pyexc + info option" where
  "probe_listing raw w url = Inr (Some (listing raw))"

text \<open>The non-zero heights among raw formats.\<close>

definition nonzero_heights :: "raw_format list \<Rightarrow> int set" where
  "nonzero_heights xs = set (List.map_filter (\<lambda>f. get (fmt_height f)) xs) - {0}"

section \<open>Facts about strings\<close>

lemma py_Nil [simp]: "py [] = []"
  by (simp add: py_def)

lemma py_Cons [simp]: "py (c # cs) = of_char c # py cs"
  by (simp add: py_def)

lemma rev_dropWhile_rev:
  "xs = rev (dropWhile P (rev xs)) @ rev (takeWhile P (rev xs))"
proof -
  have "rev (rev xs) = rev (takeWhile P (rev xs) @ dropWhile P (rev xs))"
    by (simp only: takeWhile_dropWhile_id)
  then show ?thesis by (simp only: rev_rev_ident rev_append)
qed

lemma list_all_takeWhile: "list_all P (takeWhile P xs)"
  by (induction xs) auto

lemma strip_decomposition:
  "\<exists>a b. s = a @ strip s @ b \<and> list_all isspace a \<and> list_all isspace b"
proof -
  let ?l = "dropWhile isspace s"
  have 1: "s = takeWhile isspace s @ ?l" by simp
  have 2: "?l = strip s @ rev (takeWhile isspace (rev ?l))"
    unfolding strip_def rstrip_def lstrip_def by (rule rev_dropWhile_rev)
  have 3: "list_all isspace (takeWhile isspace s)" by (rule list_all_takeWhile)
  have 4: "list_all isspace (rev (takeWhile isspace (rev ?l)))"
    using list_all_takeWhile[of isspace "rev ?l"] by (simp add: list_all_iff)
  from 1 2 have "s = takeWhile isspace s @ strip s @ rev (takeWhile isspace (rev ?l))" by metis
  with 3 4 show ?thesis by blast
qed

lemma strip_ends:
  assumes "strip s \<noteq> []"
  shows "\<not> isspace (hd (strip s)) \<and> \<not> isspace (last (strip s))"
proof -
  let ?l = "dropWhile isspace s"
  let ?r = "dropWhile isspace (rev ?l)"
  have s: "strip s = rev ?r" by (simp add: strip_def rstrip_def lstrip_def)
  have r: "?r \<noteq> []" using assms s by simp
  have l: "?l = strip s @ rev (takeWhile isspace (rev ?l))"
    unfolding strip_def rstrip_def lstrip_def by (rule rev_dropWhile_rev)
  have lne: "?l \<noteq> []" using r by (metis dropWhile.simps(1) rev.simps(1))
  have "hd ?l = hd (strip s)" using l assms by (metis hd_append2)
  moreover have "\<not> isspace (hd ?l)" using lne by (rule hd_dropWhile)
  moreover have "last (strip s) = hd ?r" using r s by (simp add: last_rev)
  moreover have "\<not> isspace (hd ?r)" using r by (rule hd_dropWhile)
  ultimately show ?thesis by simp
qed

lemma subseq_strip: "subseq (strip s) s"
proof -
  obtain a b where "s = a @ strip s @ b" using strip_decomposition by blast
  then show ?thesis
    by (metis list_emb_append2 list_emb_prefix subseq_order.order_refl append.assoc)
qed

lemma set_strip: "set (strip s) \<subseteq> set s"
proof -
  obtain a b where eq: "s = a @ strip s @ b" using strip_decomposition by blast
  have "set (a @ strip s @ b) = set a \<union> set (strip s) \<union> set b" by auto
  with eq show ?thesis by (metis Un_upper1 Un_upper2 subset_trans)
qed

section \<open>Sanitizing the title\<close>

text \<open>
  C5.  The sanitized title is the title with every character removed that is neither
  alphanumeric nor one of blank, \<open>-_.,()[]{}\<close>, and then white space trimmed at both
  ends: the filtered title is the result between two runs of white space, the result
  neither begins nor ends with white space, its characters come from the title in the
  title's order, and each of them is allowed.  \<open>Title: Test!? (HD)\<close> becomes
  \<open>Title Test (HD)\<close>.
\<close>

theorem safe_title_keeps_allowed:
  "(\<exists>a b. filter (\<lambda>c. isalnum U c \<or> c \<in> set (py '' -_.,()[]{}'')) t = a @ safe_title U t @ b
        \<and> list_all isspace a \<and> list_all isspace b)
   \<and> (safe_title U t \<noteq> [] \<longrightarrow>
        \<not> isspace (hd (safe_title U t)) \<and> \<not> isspace (last (safe_title U t)))
   \<and> subseq (safe_title U t) t
   \<and> (\<forall>c \<in> set (safe_title U t). isalnum U c \<or> c \<in> set (py '' -_.,()[]{}''))
   \<and> safe_title U (py ''Title: Test!? (HD)'') = py ''Title Test (HD)''"
proof -
  let ?k = "\<lambda>c. isalnum U c \<or> c \<in> set (py '' -_.,()[]{}'')"
  have k: "keep_char U = ?k" by (rule ext) (simp only: keep_char_def allowed_chars_def)
  have d: "safe_title U t = strip (filter ?k t)" by (simp only: safe_title_def k)
  have 1: "\<exists>a b. filter ?k t = a @ safe_title U t @ b \<and> list_all isspace a \<and> list_all isspace b"
    unfolding d by (rule strip_decomposition)
  have 2: "safe_title U t \<noteq> [] \<longrightarrow>
        \<not> isspace (hd (safe_title U t)) \<and> \<not> isspace (last (safe_title U t))"
    unfolding d using strip_ends by blast
  have 3: "subseq (safe_title U t) t"
    unfolding d using subseq_strip[of "filter ?k t"] subseq_filter_left[of ?k t]
    by (rule subseq_order.order_trans)
  have "set (safe_title U t) \<subseteq> set (filter ?k t)"
    unfolding d by (rule set_strip)
  then have 4: "\<forall>c \<in> set (safe_title U t). ?k c" by auto
  have 5: "safe_title U (py ''Title: Test!? (HD)'') = py ''Title Test (HD)''"
    by (simp add: safe_title_def keep_char_def isalnum_def allowed_chars_def strip_def
        lstrip_def rstrip_def isspace_def)
  from 1 2 3 4 5 show ?thesis by blast
qed

theorem safe_title_keeps_allowed_witness:
  "safe_title (\<lambda>c. False) (py '' a?b* '') = py ''ab''
   \<and> \<not> isspace (hd (safe_title (\<lambda>c. False) (py '' a?b* '')))
   \<and> \<not> isspace (last (safe_title (\<lambda>c. False) (py '' a?b* '')))
   \<and> subseq (safe_title (\<lambda>c. False) (py '' a?b* '')) (py '' a?b* '')"
proof -
  have e: "safe_title (\<lambda>c. False) (py '' a?b* '') = py ''ab''"
    by (simp add: safe_title_def keep_char_def isalnum_def allowed_chars_def strip_def
        lstrip_def rstrip_def isspace_def)
  have ne: "safe_title (\<lambda>c. False) (py '' a?b* '') \<noteq> []"
    unfolding e by simp
  show ?thesis
    using safe_title_keeps_allowed [of "\<lambda>c. False" "py '' a?b* ''"] e ne by blast
qed

section \<open>The calls of one download\<close>

lemmas run_defs = download_video_def get_video_info_def sim_env_def song_def transfer_ok_def
  start_def Let_def safe_title_def keep_char_def isalnum_def allowed_chars_def strip_def
  lstrip_def rstrip_def isspace_def os_path_join_def startswith_def locate_output_def
  probe_title_def choose_filename_def after_transfer_def catch_download_def new_calls_def

lemma get_video_info_calls:
  "calls (snd (get_video_info E url s)) = calls s @ [ExtractInfo (get_ydl_opts True) url]"
  by (simp add: get_video_info_def Let_def split: prod.splits sum.splits option.splits)










section \<open>The output path of one download\<close>

lemma download_video_titled:
  assumes "get_video_info E url s = (r, s1)"
    and "probe_title r url = Some t"
    and "output_file = os_path_join output_path
           (choose_filename (safe_title (unicode_alnum E) t) ext filename)"
    and "download E (world s1) (download_opts output_file format_id ext) [url] = (w, r2)"
  shows "download_video E url output_path format_id ext filename s
         = (catch_download (after_transfer E w output_path output_file r2),
            \<lparr>world = w, calls = calls s1 @ [Download (download_opts output_file format_id ext) [url]]\<rparr>)"
  using assms by (simp add: download_video_def Let_def)

lemma outtmpl_download_opts: "outtmpl (download_opts output_file format_id ext) = Some output_file"
  by (simp add: download_opts_def Let_def)

lemma download_video_untitled:
  assumes "get_video_info E url s = (r, s1)"
    and "probe_title r url = None"
  shows "download_video E url output_path format_id ext filename s
         = (Inl (download_error (Raised TypeError
               ([39] @ py ''NoneType'' @ [39] @ py '' object is not iterable''))), s1)"
  using assms by (simp add: download_video_def catch_download_def)

lemma catch_download_Inr: "catch_download r = Inr file \<longleftrightarrow> r = Inr file"
  by (cases r) (simp_all add: catch_download_def)

lemma after_transfer_Inr:
  "after_transfer E w output_path output_file r = Inr file
   \<longleftrightarrow> r = Inr 0 \<and> locate_output E w output_path output_file = Inr file"
  by (cases r) (auto simp add: after_transfer_def)

lemma locate_output_exists:
  "os_path_exists E w output_file \<Longrightarrow> locate_output E w output_path output_file = Inr output_file"
  by (simp add: locate_output_def)

text \<open>
  C10.  When a filename is given (a non-empty string, which is what the test
  \<open>not filename\<close> of line 197 lets through), the output template handed to the library is
  the destination directory joined with that filename as it is: neither the sanitized
  title nor the extension enters it.  When that path exists after the transfer, it is the
  path returned.
\<close>

theorem explicit_filename_verbatim:
  assumes "f \<noteq> []"
  shows "(\<forall>c \<in> set (new_calls s (snd (download_video E url output_path format_id ext (Some f) s))).
            \<forall>opts urls. c = Download opts urls \<longrightarrow> outtmpl opts = Some (os_path_join output_path f))
       \<and> (\<forall>file. fst (download_video E url output_path format_id ext (Some f) s) = Inr file
                 \<and> os_path_exists E
                      (world (snd (download_video E url output_path format_id ext (Some f) s)))
                      (os_path_join output_path f)
             \<longrightarrow> file = os_path_join output_path f)"
proof -
  obtain r s1 where g: "get_video_info E url s = (r, s1)"
    by (cases "get_video_info E url s")
  have c: "calls s1 = calls s @ [ExtractInfo (get_ydl_opts True) url]"
    using get_video_info_calls[of E url s] g by simp
  show ?thesis
  proof (cases "probe_title r url")
    case None
    show ?thesis
      using download_video_untitled[OF g None, of output_path format_id ext "Some f"] c
      by (simp add: new_calls_def)
  next
    case (Some t)
    have n: "choose_filename (safe_title (unicode_alnum E) t) ext (Some f) = f"
      using assms by (simp add: choose_filename_def)
    obtain w r2 where d:
      "download E (world s1) (download_opts (os_path_join output_path f) format_id ext) [url] = (w, r2)"
      by (cases "download E (world s1) (download_opts (os_path_join output_path f) format_id ext) [url]")
    have run: "download_video E url output_path format_id ext (Some f) s
         = (catch_download (after_transfer E w output_path (os_path_join output_path f) r2),
            \<lparr>world = w, calls = calls s1
               @ [Download (download_opts (os_path_join output_path f) format_id ext) [url]]\<rparr>)"
      using download_video_titled[OF g Some _ d] n by simp
    show ?thesis
      unfolding run using c
      by (auto simp add: new_calls_def outtmpl_download_opts catch_download_Inr
          after_transfer_Inr locate_output_exists)
  qed
qed

theorem explicit_filename_verbatim_witness:
  "py ''my:clip?'' \<noteq> []
   \<and> download_video (sim_env song transfer_ok [py ''/dl/my:clip?''] []) (py ''u1'') (py ''/dl'')
        (py ''22'') (py ''mp4'') (Some (py ''my:clip?'')) start
     = (Inr (py ''/dl/my:clip?''),
        \<lparr>world = 2, calls = [ExtractInfo (get_ydl_opts True) (py ''u1''),
           Download (download_opts (py ''/dl/my:clip?'') (py ''22'') (py ''mp4'')) [py ''u1'']]\<rparr>)
   \<and> outtmpl (download_opts (py ''/dl/my:clip?'') (py ''22'') (py ''mp4'')) = Some (py ''/dl/my:clip?'')"
proof -
  have ne: "py ''my:clip?'' \<noteq> []" by simp
  have j: "os_path_join (py ''/dl'') (py ''my:clip?'') = py ''/dl/my:clip?''"
    by (simp add: os_path_join_def startswith_def)
  have run: "download_video (sim_env song transfer_ok [py ''/dl/my:clip?''] []) (py ''u1'') (py ''/dl'')
        (py ''22'') (py ''mp4'') (Some (py ''my:clip?'')) start
     = (Inr (py ''/dl/my:clip?''),
        \<lparr>world = 2, calls = [ExtractInfo (get_ydl_opts True) (py ''u1''),
           Download (download_opts (py ''/dl/my:clip?'') (py ''22'') (py ''mp4'')) [py ''u1'']]\<rparr>)"
    by (simp add: run_defs)
  show ?thesis
    using explicit_filename_verbatim [OF ne, of start "sim_env song transfer_ok [py ''/dl/my:clip?''] []"
        "py ''u1''" "py ''/dl''" "py ''22''" "py ''mp4''"]
    unfolding run j by (simp add: new_calls_def start_def)
qed

text \<open>
  C9.  With no filename given and a probed title that is the empty string, the sanitized
  title is empty and the composed file name is \<open>.mp4\<close> for the extension \<open>mp4\<close>:
  the part before the extension is empty.
\<close>

theorem empty_title_filename:
  "new_calls start (snd (download_video (sim_env untitled transfer_ok [] []) (py ''u1'')
      (py ''/dl'') (py ''22'') (py ''mp4'') None start))
   = [ExtractInfo (get_ydl_opts True) (py ''u1''),
      Download (download_opts (py ''/dl/.mp4'') (py ''22'') (py ''mp4'')) [py ''u1'']]
   \<and> safe_title (unicode_alnum (sim_env untitled transfer_ok [] [])) [] = []
   \<and> choose_filename [] (py ''mp4'') None = py ''.mp4''"
  by (simp add: run_defs untitled_def)

section \<open>The file found after the transfer\<close>

lemma locate_output_missing:
  assumes "\<not> os_path_exists E w output_file"
    and "os_listdir E w output_path = Inr entries"
  shows "locate_output E w output_path output_file
         = (case filter (\<lambda>f. startswith f (basename (fst (splitext output_file)))) entries of
              [] \<Rightarrow> Inl (Raised Exception msg_not_created)
            | f # _ \<Rightarrow> Inr (os_path_join output_path f))"
  using assms by (simp add: locate_output_def Let_def)

text \<open>
  C6.  Take a download whose title was obtained, whose transfer returned code 0, whose
  expected output file does not exist, and whose destination directory lists
  \<open>entries\<close>.  Let \<open>base\<close> be the base name of the expected file without its
  extension.  If some entry starts with \<open>base\<close>, the result is the destination joined
  with the first such entry of the listing.  The result is the error "file was not
  created after the download" exactly when no entry starts with \<open>base\<close>.
\<close>

theorem missing_output_recovered:
  assumes g: "get_video_info E url s = (r, s1)"
    and t: "probe_title r url = Some t"
    and o: "output_file = os_path_join output_path
              (choose_filename (safe_title (unicode_alnum E) t) ext filename)"
    and d: "download E (world s1) (download_opts output_file format_id ext) [url] = (w, Inr 0)"
    and ne: "\<not> os_path_exists E w output_file"
    and l: "os_listdir E w output_path = Inr entries"
    and b: "base = basename (fst (splitext output_file))"
  shows "((\<exists>f \<in> set entries. startswith f base) \<longrightarrow>
            (\<exists>pre f post. entries = pre @ f # post \<and> (\<forall>g \<in> set pre. \<not> startswith g base)
               \<and> startswith f base
               \<and> fst (download_video E url output_path format_id ext filename s)
                   = Inr (os_path_join output_path f)))
       \<and> (fst (download_video E url output_path format_id ext filename s)
             = Inl (Raised Exception (msg_download_error @ msg_not_created))
          \<longleftrightarrow> (\<forall>f \<in> set entries. \<not> startswith f base))"
proof -
  let ?P = "\<lambda>f. startswith f base"
  have res: "fst (download_video E url output_path format_id ext filename s)
        = catch_download (case filter ?P entries of
              [] \<Rightarrow> Inl (Raised Exception msg_not_created)
            | f # _ \<Rightarrow> Inr (os_path_join output_path f))"
    using download_video_titled[OF g t o d] locate_output_missing[OF ne l] b
    by (simp add: after_transfer_def)
  show ?thesis
  proof (cases "filter ?P entries")
    case Nil
    then have none: "\<forall>f \<in> set entries. \<not> startswith f base"
      by (simp add: filter_empty_conv)
    have "fst (download_video E url output_path format_id ext filename s)
          = Inl (Raised Exception (msg_download_error @ msg_not_created))"
      using res Nil by (simp add: catch_download_def download_error_def)
    with none show ?thesis by simp
  next
    case (Cons f rest)
    from filter_eq_ConsD[OF Cons] obtain pre post where
      e: "entries = pre @ f # post" and p: "\<forall>g \<in> set pre. \<not> startswith g base"
      and f: "startswith f base"
      by blast
    have r: "fst (download_video E url output_path format_id ext filename s)
          = Inr (os_path_join output_path f)"
      using res Cons by (simp add: catch_download_def)
    have some: "\<exists>f \<in> set entries. startswith f base" using e f by auto
    from e p f r have "\<exists>pre f post. entries = pre @ f # post
        \<and> (\<forall>g \<in> set pre. \<not> startswith g base) \<and> startswith f base
        \<and> fst (download_video E url output_path format_id ext filename s)
            = Inr (os_path_join output_path f)"
      by blast
    with some r show ?thesis by auto
  qed
qed

lemma song_mp3_base: "basename (fst (splitext (py ''/dl/My Song.mp3''))) = py ''My Song''"
  by (simp add: splitext_def basename_def Let_def)

theorem missing_output_recovered_witness:
  "fst (download_video
          (sim_env song transfer_ok [] [py ''notes.txt'', py ''My Song.m4a'', py ''My Song.webm''])
          (py ''u1'') (py ''/dl'') (py ''22'') (py ''mp3'') None start)
     = Inr (py ''/dl/My Song.m4a'')
   \<and> fst (download_video
          (sim_env song transfer_ok [] [py ''notes.txt'', py ''My Song.m4a'', py ''My Song.webm''])
          (py ''u1'') (py ''/dl'') (py ''22'') (py ''mp3'') None start)
     \<noteq> Inl (Raised Exception (msg_download_error @ msg_not_created))
   \<and> startswith (py ''My Song.m4a'') (py ''My Song'')"
proof -
  let ?E = "sim_env song transfer_ok [] [py ''notes.txt'', py ''My Song.m4a'', py ''My Song.webm'']"
  let ?info = "\<lparr>info_id = Val (py ''x1''), info_title = Val (py ''My Song!''),
                info_uploader = Val (py ''me''), info_formats = Val []\<rparr>"
  let ?s1 = "\<lparr>world = 1, calls = [ExtractInfo (get_ydl_opts True) (py ''u1'')]\<rparr>"
  have g: "get_video_info ?E (py ''u1'') start = (Inr ?info, ?s1)"
    by (simp add: get_video_info_def sim_env_def song_def start_def Let_def)
  have t: "probe_title (Inr ?info) (py ''u1'') = Some (py ''My Song!'')"
    by (simp add: probe_title_def)
  have o: "py ''/dl/My Song.mp3'' = os_path_join (py ''/dl'')
              (choose_filename (safe_title (unicode_alnum ?E) (py ''My Song!'')) (py ''mp3'') None)"
    by (simp add: run_defs)
  have d: "download ?E (world ?s1) (download_opts (py ''/dl/My Song.mp3'') (py ''22'') (py ''mp3''))
             [py ''u1''] = (2, Inr 0)"
    by (simp add: sim_env_def transfer_ok_def)
  have ne: "\<not> os_path_exists ?E 2 (py ''/dl/My Song.mp3'')"
    by (simp add: sim_env_def)
  have l: "os_listdir ?E 2 (py ''/dl'')
           = Inr [py ''notes.txt'', py ''My Song.m4a'', py ''My Song.webm'']"
    by (simp add: sim_env_def)
  have m: "startswith (py ''My Song.m4a'') (py ''My Song'')"
    by (simp add: startswith_def)
  have run: "fst (download_video ?E (py ''u1'') (py ''/dl'') (py ''22'') (py ''mp3'') None start)
     = Inr (py ''/dl/My Song.m4a'')"
    by (simp add: run_defs splitext_def basename_def)
  from missing_output_recovered [OF g t o d ne l song_mp3_base [symmetric]] m run
  show ?thesis by simp
qed

section \<open>The batch download\<close>

lemma probed_append: "probed (xs @ ys) = probed xs @ probed ys"
  by (induction xs rule: probed.induct) simp_all

lemma download_video_probed:
  "\<exists>xs. calls (snd (download_video E url output_path format_id ext filename s)) = calls s @ xs
        \<and> probed xs = [url]"
  using get_video_info_calls[of E url s]
  by (auto simp add: download_video_def Let_def split: prod.splits option.splits)

lemma download_loop_lists:
  "fst (download_loop E urls output_path format_id ext downloaded_files errors s)
     = downloaded_files @ successes (outcomes E urls output_path format_id ext s)
   \<and> fst (snd (download_loop E urls output_path format_id ext downloaded_files errors s))
     = errors @ map (\<lambda>(url, e). msg_item url e)
                  (failures (outcomes E urls output_path format_id ext s))"
proof (induction urls arbitrary: downloaded_files errors s)
  case Nil
  show ?case by simp
next
  case (Cons url urls)
  obtain r s' where d: "download_video E url output_path format_id ext None s = (r, s')"
    by (cases "download_video E url output_path format_id ext None s")
  show ?case
  proof (cases r)
    case (Inl e)
    with d Cons.IH[of downloaded_files "errors @ [msg_item url e]" s'] show ?thesis by simp
  next
    case (Inr path)
    with d Cons.IH[of "downloaded_files @ [path]" errors s'] show ?thesis by simp
  qed
qed

lemma download_loop_probed:
  "\<exists>xs. calls (snd (snd (download_loop E urls output_path format_id ext downloaded_files errors s)))
          = calls s @ xs \<and> probed xs = urls"
proof (induction urls arbitrary: downloaded_files errors s)
  case Nil
  show ?case by simp
next
  case (Cons url urls)
  obtain r s' where d: "download_video E url output_path format_id ext None s = (r, s')"
    by (cases "download_video E url output_path format_id ext None s")
  from download_video_probed[of E url output_path format_id ext None s] d
  obtain xs where xs: "calls s' = calls s @ xs" "probed xs = [url]" by auto
  show ?case
  proof (cases r)
    case (Inl e)
    from Cons.IH[of downloaded_files "errors @ [msg_item url e]" s']
    obtain ys where "calls (snd (snd (download_loop E urls output_path format_id ext
        downloaded_files (errors @ [msg_item url e]) s'))) = calls s' @ ys" "probed ys = urls"
      by blast
    with xs d Inl show ?thesis by (simp add: probed_append)
  next
    case (Inr path)
    from Cons.IH[of "downloaded_files @ [path]" errors s']
    obtain ys where "calls (snd (snd (download_loop E urls output_path format_id ext
        (downloaded_files @ [path]) errors s'))) = calls s' @ ys" "probed ys = urls"
      by blast
    with xs d Inr show ?thesis by (simp add: probed_append)
  qed
qed

lemma map_fst_outcomes: "map fst (outcomes E urls output_path format_id ext s) = urls"
  by (induction urls arbitrary: s) (auto split: prod.splits)

text \<open>
  C3.  A batch probes every URL of the list, in the order of the list, whatever the
  earlier downloads returned; each URL gets one outcome.  When no download failed the
  batch returns the paths of all of them.  When at least one failed it raises one
  exception whose text is the heading followed by one line per failed download, in order,
  naming the URL and the text of its exception; the paths of the successful downloads are
  not in the result.
\<close>

theorem download_multiple_collects:
  "map fst (outcomes E urls output_path format_id ext s) = urls
   \<and> probed (new_calls s (snd (download_multiple E urls output_path format_id ext s))) = urls
   \<and> (failures (outcomes E urls output_path format_id ext s) = [] \<longrightarrow>
        fst (download_multiple E urls output_path format_id ext s)
          = Inr (successes (outcomes E urls output_path format_id ext s)))
   \<and> (failures (outcomes E urls output_path format_id ext s) \<noteq> [] \<longrightarrow>
        fst (download_multiple E urls output_path format_id ext s)
          = Inl (Raised Exception
                  (py ''Erros durante o download em lote:'' @ [10]
                   @ join [10]
                       (map (\<lambda>(url, e). py ''Erro ao baixar '' @ url @ py '': '' @ str_exc e)
                          (failures (outcomes E urls output_path format_id ext s))))))"
proof -
  obtain ds es s' where l: "download_loop E urls output_path format_id ext [] [] s = (ds, es, s')"
    by (cases "download_loop E urls output_path format_id ext [] [] s") auto
  from download_loop_lists[of E urls output_path format_id ext "[]" "[]" s] l
  have ds: "ds = successes (outcomes E urls output_path format_id ext s)"
    and es: "es = map (\<lambda>(url, e). msg_item url e)
                   (failures (outcomes E urls output_path format_id ext s))"
    by simp_all
  from download_loop_probed[of E urls output_path format_id ext "[]" "[]" s] l
  obtain xs where xs: "calls s' = calls s @ xs" "probed xs = urls" by auto
  have m: "(\<lambda>(url, e). msg_item url e)
           = (\<lambda>(url, e). py ''Erro ao baixar '' @ url @ py '': '' @ str_exc e)"
    by (simp only: msg_item_def)
  have st: "snd (download_multiple E urls output_path format_id ext s) = s'"
    using l by (simp add: download_multiple_def)
  have 2: "probed (new_calls s (snd (download_multiple E urls output_path format_id ext s))) = urls"
    using xs st by (simp add: new_calls_def)
  have 3: "failures (outcomes E urls output_path format_id ext s) = [] \<longrightarrow>
        fst (download_multiple E urls output_path format_id ext s)
          = Inr (successes (outcomes E urls output_path format_id ext s))"
    using l ds es by (simp add: download_multiple_def)
  have 4: "failures (outcomes E urls output_path format_id ext s) \<noteq> [] \<longrightarrow>
        fst (download_multiple E urls output_path format_id ext s)
          = Inl (Raised Exception
                  (py ''Erros durante o download em lote:'' @ [10]
                   @ join [10]
                       (map (\<lambda>(url, e). py ''Erro ao baixar '' @ url @ py '': '' @ str_exc e)
                          (failures (outcomes E urls output_path format_id ext s)))))"
    using l ds es unfolding m[symmetric] by (simp add: download_multiple_def msg_batch_def)
  from map_fst_outcomes 2 3 4 show ?thesis by blast
qed


lemma batch_outcomes:
  "outcomes (sim_env song transfer_but_u2 [py ''/dl/My Song.mp4''] []) [py ''u1'', py ''u2'']
      (py ''/dl'') (py ''22'') (py ''mp4'') start
   = [(py ''u1'', Inr (py ''/dl/My Song.mp4'')),
      (py ''u2'', Inl (Raised Exception (msg_download_error @ msg_error_code 1)))]"
  by (simp add: run_defs transfer_but_u2_def download_error_def)

theorem download_multiple_collects_witness:
  "failures (outcomes (sim_env song transfer_but_u2 [py ''/dl/My Song.mp4''] [])
      [py ''u1'', py ''u2''] (py ''/dl'') (py ''22'') (py ''mp4'') start) \<noteq> []
   \<and> fst (download_multiple (sim_env song transfer_but_u2 [py ''/dl/My Song.mp4''] [])
           [py ''u1'', py ''u2''] (py ''/dl'') (py ''22'') (py ''mp4'') start)
     = Inl (Raised Exception
              (py ''Erros durante o download em lote:'' @ [10] @ py ''Erro ao baixar u2: ''
               @ msg_download_error @ msg_error_code 1))
   \<and> probed (new_calls start
        (snd (download_multiple (sim_env song transfer_but_u2 [py ''/dl/My Song.mp4''] [])
           [py ''u1'', py ''u2''] (py ''/dl'') (py ''22'') (py ''mp4'') start)))
     = [py ''u1'', py ''u2'']"
  using download_multiple_collects [of "sim_env song transfer_but_u2 [py ''/dl/My Song.mp4''] []"
      "[py ''u1'', py ''u2'']" "py ''/dl''" "py ''22''" "py ''mp4''" start]
  unfolding batch_outcomes by simp

section \<open>Format resolution when the probe fails\<close>

lemma formats_handler_undefined:
  "formats_handler None E url s
   = (Inl (Raised Exception (msg_formats_error @ py ''name '' @ [39] @ py ''MP4_QUALITY_PRESETS''
            @ [39] @ py '' is not defined'')), s)"
  by (simp add: formats_handler_def get_fallback_formats_with_def)

lemma get_available_formats_probe_fails:
  assumes "get_video_info E url s = (Inl e, s1)"
  shows "get_available_formats E url s
   = (Inl (Raised Exception (msg_formats_error @ py ''name '' @ [39] @ py ''MP4_QUALITY_PRESETS''
            @ [39] @ py '' is not defined'')), s1)"
  using assms
  by (simp add: get_available_formats_def get_available_formats_with_def MP4_QUALITY_PRESETS_def
      formats_handler_undefined)

lemma offline_info:
  "get_video_info (sim_env offline transfer files entries) url \<lparr>world = w, calls = cs\<rparr>
   = (Inl (Raised Exception (msg_info_error @ py ''network unreachable'')),
      \<lparr>world = Suc w, calls = cs @ [ExtractInfo (get_ydl_opts True) url]\<rparr>)"
  by (simp add: get_video_info_def sim_env_def offline_def Let_def)

text \<open>
  C1.  On the module as it is, the probe fails for a URL and \<open>get_available_formats\<close>
  raises: \<open>get_fallback_formats\<close> raises \<open>NameError\<close> in the handler of the inner
  \<open>try\<close>, which the outer handler turns into the exception returned here.
\<close>

theorem fallback_raises_name_error:
  "fst (get_available_formats (sim_env offline transfer_ok [] []) (py ''https://youtu.be/x'') start)
   = Inl (Raised Exception (msg_formats_error @ py ''name '' @ [39] @ py ''MP4_QUALITY_PRESETS''
            @ [39] @ py '' is not defined''))
   \<and> get_fallback_formats
   = Inl (Raised NameError (py ''name '' @ [39] @ py ''MP4_QUALITY_PRESETS''
            @ [39] @ py '' is not defined''))"
  using get_available_formats_probe_fails [OF offline_info, of transfer_ok "[]" "[]"
      "py ''https://youtu.be/x''" 0 "[]"]
  by (simp add: start_def get_fallback_formats_def get_fallback_formats_with_def
      MP4_QUALITY_PRESETS_def)

text \<open>
  With a presets table bound, a failing probe gives the fallback list: one entry for each
  preset and the two audio entries.
\<close>

lemma fallback_when_presets_defined:
  assumes "get_video_info E url s = (Inl e, s1)"
  shows "\<exists>info. fst (get_available_formats_with (Some ps) E url s)
            = Inr (map (\<lambda>p. \<lparr>choice_id = preset_id p, choice_ext = py ''mp4'',
                         choice_description = preset_description p,
                         choice_format_note = Some (py ''Fallback''), choice_format = None\<rparr>) ps
                   @ [MP3_FORMAT, WAV_FORMAT], info)"
  using assms
  by (cases "get_video_info E url s1")
     (auto simp add: get_available_formats_with_def formats_handler_def
        get_fallback_formats_with_def split: sum.splits)

text \<open>
  C7.  On the module as it is, with a probe that fails on every call,
  \<open>get_available_formats\<close> raises after a single probe: the handler of the inner
  \<open>try\<close> raises \<open>NameError\<close> in \<open>get_fallback_formats\<close> (line 152) before it probes a
  second time, so the placeholder dictionary of line 159 is not built and the call does
  not complete.
\<close>

theorem second_probe_never_made:
  "get_available_formats (sim_env offline transfer_ok [] []) (py ''u1'') start
   = (Inl (Raised Exception (msg_formats_error @ py ''name '' @ [39] @ py ''MP4_QUALITY_PRESETS''
            @ [39] @ py '' is not defined'')),
      \<lparr>world = 1, calls = [ExtractInfo (get_ydl_opts True) (py ''u1'')]\<rparr>)
   \<and> formats_handler MP4_QUALITY_PRESETS (sim_env offline transfer_ok [] []) (py ''u1'')
       \<lparr>world = 1, calls = [ExtractInfo (get_ydl_opts True) (py ''u1'')]\<rparr>
   = (Inl (Raised Exception (msg_formats_error @ py ''name '' @ [39] @ py ''MP4_QUALITY_PRESETS''
            @ [39] @ py '' is not defined'')),
      \<lparr>world = 1, calls = [ExtractInfo (get_ydl_opts True) (py ''u1'')]\<rparr>)"
  using get_available_formats_probe_fails [OF offline_info, of transfer_ok "[]" "[]"
      "py ''u1''" 0 "[]"]
  by (simp add: start_def MP4_QUALITY_PRESETS_def formats_handler_undefined)

section \<open>Format resolution from a probed listing\<close>

text \<open>\<open>str\<close> is injective on integers, so the set of resolution keys distinguishes heights.\<close>

declare digits.simps [simp del]

lemma digits_range: "\<forall>d \<in> set (digits n). 48 \<le> d"
  by (induction n rule: digits.induct) (subst digits.simps, auto)

lemma undigits: "foldl (\<lambda>a d. 10 * a + (d - 48)) 0 (digits n) = n"
proof (induction n rule: digits.induct)
  case (1 n)
  show ?case
  proof (cases "n < 10")
    case True
    then show ?thesis by (subst digits.simps) simp
  next
    case False
    with 1 show ?thesis by (subst digits.simps) simp
  qed
qed

lemma digits_inj: "digits a = digits b \<Longrightarrow> a = b"
  by (metis undigits)

lemma digits_not_minus: "digits n \<noteq> 45 # ds"
proof
  assume "digits n = 45 # ds"
  then have "45 \<in> set (digits n)" by simp
  with digits_range[of n] show False by auto
qed

lemma str_int_inj [simp]: "str_int i = str_int j \<longleftrightarrow> i = j"
proof
  assume e: "str_int i = str_int j"
  show "i = j"
  proof (cases "i < 0")
    case True
    show ?thesis
    proof (cases "j < 0")
      case True
      with \<open>i < 0\<close> e have "nat (- i) = nat (- j)" by (auto simp add: str_int_def dest: digits_inj)
      with True \<open>i < 0\<close> show ?thesis by simp
    next
      case False
      with \<open>i < 0\<close> e have "digits (nat j) = 45 # digits (nat (- i))"
        by (simp add: str_int_def)
      then show ?thesis using digits_not_minus by blast
    qed
  next
    case False
    show ?thesis
    proof (cases "j < 0")
      case True
      with \<open>\<not> i < 0\<close> e have "digits (nat i) = 45 # digits (nat (- j))"
        by (simp add: str_int_def)
      then show ?thesis using digits_not_minus by blast
    next
      case False
      with \<open>\<not> i < 0\<close> e have "nat i = nat j" by (auto simp add: str_int_def dest: digits_inj)
      with False \<open>\<not> i < 0\<close> show ?thesis by simp
    qed
  qed
qed simp

text \<open>The loop of lines 108 to 121.\<close>

lemma add_formats_full:
  "5 \<le> length formats \<Longrightarrow> add_formats xs formats added = formats"
  by (induction xs) (auto split: option.splits)


lemma nonzero_heights_Nil [simp]: "nonzero_heights [] = {}"
  by (simp add: nonzero_heights_def map_filter_simps)

lemma nonzero_heights_Cons:
  "nonzero_heights (x # xs)
   = (case get (fmt_height x) of
        None \<Rightarrow> nonzero_heights xs
      | Some h \<Rightarrow> if h = 0 then nonzero_heights xs else insert h (nonzero_heights xs))"
  by (auto simp add: nonzero_heights_def map_filter_simps split: option.splits)

lemma finite_nonzero_heights [simp]: "finite (nonzero_heights xs)"
  by (simp add: nonzero_heights_def)

lemma nonzero_heights_set:
  "nonzero_heights xs = {h. \<exists>f \<in> set xs. get (fmt_height f) = Some h \<and> h \<noteq> 0}"
  by (induction xs) (auto simp add: nonzero_heights_Cons split: option.splits)

lemma height_key_Some: "get (fmt_height x) = Some h \<Longrightarrow> height_key x = h"
  by (cases "fmt_height x") (simp_all add: height_key_def)

lemma choice_height_video_choice [simp]:
  "choice_height (video_choice f h) = get (fmt_height f)"
  by (simp add: choice_height_def video_choice_def)

lemma add_formats_length:
  "length formats \<le> 5 \<Longrightarrow> 5 - length formats \<le> card (str_int ` nonzero_heights xs - added)
   \<Longrightarrow> length (add_formats xs formats added) = 5"
proof (induction xs arbitrary: formats added)
  case Nil
  then show ?case by simp
next
  case (Cons x xs)
  show ?case
  proof (cases "length formats = 5")
    case True
    then have "add_formats (x # xs) formats added = formats"
      by (intro add_formats_full) simp
    with True show ?thesis by (simp only:)
  next
    case False
    with Cons.prems have lt: "length formats < 5" by simp
    show ?thesis
    proof (cases "get (fmt_height x)")
      case None
      with Cons show ?thesis by (simp add: nonzero_heights_Cons)
    next
      case (Some h)
      show ?thesis
      proof (cases "h = 0")
        case True
        with Some Cons show ?thesis by (simp add: nonzero_heights_Cons)
      next
        case nz: False
        show ?thesis
        proof (cases "str_int h \<in> added")
          case True
          then have "str_int ` nonzero_heights (x # xs) - added
                     = str_int ` nonzero_heights xs - added"
            using Some nz by (auto simp add: nonzero_heights_Cons)
          with Cons.prems Cons.IH[of formats added] Some nz lt True show ?thesis by simp
        next
          case False
          let ?A = "str_int ` nonzero_heights xs - added"
          have e: "str_int ` nonzero_heights (x # xs) - added = insert (str_int h) ?A"
            using Some nz False by (auto simp add: nonzero_heights_Cons)
          have f: "finite ?A" by simp
          have "card (insert (str_int h) ?A) = Suc (card (?A - {str_int h}))"
            using f by (rule card.insert_remove)
          moreover have "?A - {str_int h}
                         = str_int ` nonzero_heights xs - insert (str_int h) added" by auto
          ultimately have
            "5 - length (formats @ [video_choice x h])
             \<le> card (str_int ` nonzero_heights xs - insert (str_int h) added)"
            using Cons.prems(2) e by simp
          with Cons.IH[of "formats @ [video_choice x h]" "insert (str_int h) added"] lt
          have "length (add_formats xs (formats @ [video_choice x h])
                          (insert (str_int h) added)) = 5" by simp
          with Some nz lt False show ?thesis by (simp add: Let_def)
        qed
      qed
    qed
  qed
qed

lemma add_formats_sorted:
  "sorted_wrt (\<lambda>a b. height_key b \<le> height_key a) xs
   \<Longrightarrow> map choice_height formats = map Some hs
   \<Longrightarrow> sorted_wrt (>) hs
   \<Longrightarrow> added = str_int ` set hs
   \<Longrightarrow> \<forall>h \<in> set hs. \<forall>f \<in> set xs. height_key f \<le> h
   \<Longrightarrow> \<exists>hs'. map choice_height (add_formats xs formats added) = map Some hs'
             \<and> sorted_wrt (>) hs'"
proof (induction xs arbitrary: formats hs added)
  case Nil
  then show ?case by auto
next
  case (Cons x xs)
  have srt: "sorted_wrt (\<lambda>a b. height_key b \<le> height_key a) xs"
    and le: "\<forall>f \<in> set xs. height_key f \<le> height_key x"
    using Cons.prems(1) by simp_all
  have bound: "\<forall>h \<in> set hs. \<forall>f \<in> set xs. height_key f \<le> h"
    using Cons.prems(5) by simp
  have same: "\<exists>hs'. map choice_height (add_formats xs formats added) = map Some hs'
             \<and> sorted_wrt (>) hs'"
    by (rule Cons.IH[OF srt Cons.prems(2) Cons.prems(3) Cons.prems(4) bound])
  show ?case
  proof (cases "get (fmt_height x)")
    case None
    with same show ?thesis by simp
  next
    case (Some h)
    show ?thesis
    proof (cases "h \<noteq> 0 \<and> length formats < 5 \<and> str_int h \<notin> added")
      case False
      with Some same show ?thesis by (auto simp add: Let_def)
    next
      case True
      have hk: "height_key x = h" using Some by (rule height_key_Some)
      have notin: "h \<notin> set hs" using True Cons.prems(4) by auto
      have ge: "\<forall>a \<in> set hs. h \<le> a" using Cons.prems(5) hk by auto
      have gt: "\<forall>a \<in> set hs. h < a"
      proof
        fix a assume a: "a \<in> set hs"
        with ge have "h \<le> a" by simp
        moreover from a notin have "a \<noteq> h" by auto
        ultimately show "h < a" by simp
      qed
      have 2: "map choice_height (formats @ [video_choice x h]) = map Some (hs @ [h])"
        using Cons.prems(2) Some by simp
      have 3: "sorted_wrt (>) (hs @ [h])"
        using Cons.prems(3) gt by (simp add: sorted_wrt_append)
      have 4: "insert (str_int h) added = str_int ` set (hs @ [h])"
        using Cons.prems(4) by simp
      have 5: "\<forall>a \<in> set (hs @ [h]). \<forall>f \<in> set xs. height_key f \<le> a"
        using bound le hk by auto
      from Cons.IH[OF srt 2 3 4 5] True Some show ?thesis by (simp add: Let_def)
    qed
  qed
qed

lemma add_formats_members:
  "\<forall>v \<in> set (add_formats xs formats added).
     v \<in> set formats \<or> (\<exists>f \<in> set xs. \<exists>h. get (fmt_height f) = Some h \<and> v = video_choice f h)"
proof (induction xs arbitrary: formats added)
  case Nil
  show ?case by simp
next
  case (Cons x xs)
  show ?case
  proof (cases "get (fmt_height x)")
    case None
    with Cons[of formats added] show ?thesis by auto
  next
    case (Some h)
    show ?thesis
    proof (cases "h \<noteq> 0 \<and> length formats < 5 \<and> str_int h \<notin> added")
      case False
      with Some Cons[of formats added] show ?thesis by (auto simp add: Let_def)
    next
      case True
      with Some Cons[of "formats @ [video_choice x h]" "insert (str_int h) added"]
      show ?thesis by (auto simp add: Let_def)
    qed
  qed
qed


lemma sorted_wrt_greater_distinct: "sorted_wrt (>) (hs :: int list) \<Longrightarrow> distinct hs"
  by (induction hs) auto

lemma sort_reverse_descending:
  "sorted_wrt (\<lambda>a b. k b \<le> k a) (sort_reverse k xs)"
proof -
  have "sorted (map (\<lambda>x. - k x) (sort_key (\<lambda>x. - k x) xs))" by (rule sorted_sort_key)
  then show ?thesis by (simp add: sort_reverse_def sorted_map)
qed

lemma nonzero_heights_video: "nonzero_heights (filter is_video_format raw) = set (video_heights raw) - {0}"
  by (simp add: nonzero_heights_def video_heights_def)

lemma video_choice_fields:
  "choice_ext (video_choice f h) = py ''mp4'' \<and> choice_format (video_choice f h) = Some f
   \<and> choice_id (video_choice f h) = fmt_format_id f"
  by (simp add: video_choice_def)

lemma get_available_formats_listed:
  assumes "get_video_info E url s = (Inr info, s1)"
    and "info_formats info = Val raw"
    and "filter is_video_format raw \<noteq> []"
  shows "get_available_formats E url s
         = (Inr (add_formats (sort_reverse height_key (filter is_video_format raw)) [] {}
                 @ [audio_mp3, audio_wav], info), s1)"
  using assms
  by (simp add: get_available_formats_def get_available_formats_with_def build_formats_def Let_def)

text \<open>
  C2, as amended.  When the probe succeeds and the raw formats that pass the filter (mp4,
  a height that is not \<open>None\<close>, an audio codec other than \<open>none\<close>) have at least 5
  distinct heights other than 0, the call returns exactly 7 entries: 5 video entries, each
  built from a raw format that passed the filter, with heights strictly descending and so
  pairwise distinct, followed by the mp3 entry and then the wav entry, both with the
  identifier \<open>bestaudio/best\<close>.
\<close>

theorem five_video_choices:
  assumes g: "get_video_info E url s = (Inr info, s1)"
    and raw: "info_formats info = Val raw"
    and five: "5 \<le> card (set (video_heights raw) - {0})"
  shows "\<exists>videos hs.
           get_available_formats E url s = (Inr (videos @ [audio_mp3, audio_wav], info), s1)
           \<and> length videos = 5
           \<and> map choice_height videos = map Some hs \<and> sorted_wrt (>) hs \<and> distinct hs
           \<and> (\<forall>v \<in> set videos.
                 choice_ext v = py ''mp4''
                 \<and> (\<exists>f \<in> set raw. is_video_format f \<and> choice_format v = Some f
                       \<and> choice_id v = fmt_format_id f))
           \<and> choice_ext audio_mp3 = py ''mp3'' \<and> choice_id audio_mp3 = py ''bestaudio/best''
           \<and> choice_ext audio_wav = py ''wav'' \<and> choice_id audio_wav = py ''bestaudio/best''"
proof -
  let ?vf = "filter is_video_format raw"
  let ?S = "sort_reverse height_key ?vf"
  let ?videos = "add_formats ?S [] {}"
  have nh: "nonzero_heights ?vf = set (video_heights raw) - {0}"
    by (rule nonzero_heights_video)
  have ne: "?vf \<noteq> []"
  proof
    assume "?vf = []"
    then have "set (video_heights raw) - {0} = {}"
      by (simp add: video_heights_def map_filter_simps)
    with five show False by simp
  qed
  have res: "get_available_formats E url s = (Inr (?videos @ [audio_mp3, audio_wav], info), s1)"
    by (rule get_available_formats_listed[OF g raw ne])
  have setS: "set ?S = set ?vf" by (simp add: sort_reverse_def)
  have nhS: "nonzero_heights ?S = nonzero_heights ?vf"
    by (simp only: nonzero_heights_set setS)
  have "inj_on str_int (nonzero_heights ?S)" by (rule inj_onI) simp
  then have "card (str_int ` nonzero_heights ?S) = card (nonzero_heights ?S)"
    by (rule card_image)
  with five nh nhS have "5 - length ([] :: format_choice list)
      \<le> card (str_int ` nonzero_heights ?S - {})" by simp
  then have len: "length ?videos = 5"
    by (intro add_formats_length) simp_all
  have "\<exists>hs. map choice_height ?videos = map Some hs \<and> sorted_wrt (>) hs"
    by (rule add_formats_sorted[of ?S "[]" "[]" "{}"]) (simp_all add: sort_reverse_descending)
  then obtain hs where hs: "map choice_height ?videos = map Some hs" "sorted_wrt (>) hs"
    by blast
  have dist: "distinct hs" using hs(2) by (rule sorted_wrt_greater_distinct)
  have mem: "\<forall>v \<in> set ?videos.
                 choice_ext v = py ''mp4''
                 \<and> (\<exists>f \<in> set raw. is_video_format f \<and> choice_format v = Some f
                       \<and> choice_id v = fmt_format_id f)"
  proof
    fix v assume "v \<in> set ?videos"
    with add_formats_members[of ?S "[]" "{}"]
    obtain f h where f: "f \<in> set ?S" and v: "v = video_choice f h" by auto
    from f setS have "f \<in> set raw" "is_video_format f" by auto
    with v video_choice_fields[of f h] show "choice_ext v = py ''mp4''
                 \<and> (\<exists>f \<in> set raw. is_video_format f \<and> choice_format v = Some f
                       \<and> choice_id v = fmt_format_id f)" by auto
  qed
  have audio: "choice_ext audio_mp3 = py ''mp3'' \<and> choice_id audio_mp3 = py ''bestaudio/best''
           \<and> choice_ext audio_wav = py ''wav'' \<and> choice_id audio_wav = py ''bestaudio/best''"
    by (simp add: audio_mp3_def audio_wav_def)
  from res len hs dist mem audio show ?thesis by blast
qed


lemma probe_listing_info:
  "get_video_info (sim_env (probe_listing raw) transfer files entries) url start
   = (Inr (listing raw), \<lparr>world = 1, calls = [ExtractInfo (get_ydl_opts True) url]\<rparr>)"
  by (simp add: get_video_info_def sim_env_def probe_listing_def start_def Let_def)

lemma raw_seven_heights: "set (video_heights raw_seven) - {0} = {144, 240, 360, 480, 720, 1080}"
  by (auto simp add: video_heights_def raw_seven_def mp4_format_def video_only_format_def
      is_video_format_def map_filter_simps)

lemma raw_seven_choices:
  "get_available_formats (sim_env (probe_listing raw_seven) transfer_ok [] []) (py ''u1'') start
   = (Inr ([video_choice (mp4_format (py ''37'') 1080) 1080,
            video_choice (mp4_format (py ''22'') 720) 720,
            video_choice (mp4_format (py ''59'') 480) 480,
            video_choice (mp4_format (py ''18'') 360) 360,
            video_choice (mp4_format (py ''5'') 240) 240,
            audio_mp3, audio_wav], listing raw_seven),
      \<lparr>world = 1, calls = [ExtractInfo (get_ydl_opts True) (py ''u1'')]\<rparr>)"
proof -
  have f: "filter is_video_format raw_seven
     = [mp4_format (py ''18'') 360, mp4_format (py ''22'') 720, mp4_format (py ''59'') 480,
        mp4_format (py ''22b'') 720, mp4_format (py ''37'') 1080, mp4_format (py ''17'') 144,
        mp4_format (py ''5'') 240]"
    by (simp add: raw_seven_def mp4_format_def video_only_format_def is_video_format_def)
  have k: "height_key (mp4_format fid h) = h" for fid h
    by (simp add: height_key_def mp4_format_def)
  have h: "get (fmt_height (mp4_format fid h)) = Some h" for fid h
    by (simp add: mp4_format_def)
  have s: "sort_reverse height_key (filter is_video_format raw_seven)
     = [mp4_format (py ''37'') 1080, mp4_format (py ''22'') 720, mp4_format (py ''22b'') 720,
        mp4_format (py ''59'') 480, mp4_format (py ''18'') 360, mp4_format (py ''5'') 240,
        mp4_format (py ''17'') 144]"
    unfolding f by (simp add: sort_reverse_def k)
  have ne: "filter is_video_format raw_seven \<noteq> []" unfolding f by simp
  have i: "info_formats (listing raw_seven) = Val raw_seven" by (simp add: listing_def)
  show ?thesis
    unfolding get_available_formats_listed[OF probe_listing_info i ne] s
    by (simp add: h Let_def)
qed


theorem five_video_choices_witness:
  "5 \<le> card (set (video_heights raw_seven) - {0})
   \<and> get_available_formats (sim_env (probe_listing raw_seven) transfer_ok [] []) (py ''u1'') start
     = (Inr ([video_choice (mp4_format (py ''37'') 1080) 1080,
              video_choice (mp4_format (py ''22'') 720) 720,
              video_choice (mp4_format (py ''59'') 480) 480,
              video_choice (mp4_format (py ''18'') 360) 360,
              video_choice (mp4_format (py ''5'') 240) 240] @ [audio_mp3, audio_wav],
             listing raw_seven),
        \<lparr>world = 1, calls = [ExtractInfo (get_ydl_opts True) (py ''u1'')]\<rparr>)"
proof -
  have five: "5 \<le> card (set (video_heights raw_seven) - {0})"
    unfolding raw_seven_heights by simp
  have i: "info_formats (listing raw_seven) = Val raw_seven" by (simp add: listing_def)
  from five_video_choices [OF probe_listing_info i five, of transfer_ok "[]" "[]" "py ''u1''"]
    raw_seven_choices five
  show ?thesis by simp
qed

text \<open>
  C2, as stated, fails: five mp4 formats with audio and the five distinct known heights
  0, 144, 240, 360 and 480 give four video entries and six entries in all, because line 111
  skips a height that is 0.
\<close>

theorem zero_height_counterexample:
  "card (set (video_heights raw_with_zero)) = 5
   \<and> get_available_formats (sim_env (probe_listing raw_with_zero) transfer_ok [] [])
       (py ''u1'') start
     = (Inr ([video_choice (mp4_format (py ''e'') 480) 480,
              video_choice (mp4_format (py ''d'') 360) 360,
              video_choice (mp4_format (py ''c'') 240) 240,
              video_choice (mp4_format (py ''b'') 144) 144,
              audio_mp3, audio_wav], listing raw_with_zero),
        \<lparr>world = 1, calls = [ExtractInfo (get_ydl_opts True) (py ''u1'')]\<rparr>)"
proof -
  have f: "filter is_video_format raw_with_zero = raw_with_zero"
    by (simp add: raw_with_zero_def mp4_format_def is_video_format_def)
  have c: "set (video_heights raw_with_zero) = {0, 144, 240, 360, 480}"
    by (auto simp add: video_heights_def f) (auto simp add: raw_with_zero_def mp4_format_def map_filter_simps)
  have k: "height_key (mp4_format fid h) = h" for fid h
    by (simp add: height_key_def mp4_format_def)
  have h: "get (fmt_height (mp4_format fid h)) = Some h" for fid h
    by (simp add: mp4_format_def)
  have s: "sort_reverse height_key (filter is_video_format raw_with_zero)
     = [mp4_format (py ''e'') 480, mp4_format (py ''d'') 360, mp4_format (py ''c'') 240,
        mp4_format (py ''b'') 144, mp4_format (py ''a'') 0]"
    unfolding f by (simp add: raw_with_zero_def sort_reverse_def k)
  have ne: "filter is_video_format raw_with_zero \<noteq> []"
    unfolding f by (simp add: raw_with_zero_def)
  have i: "info_formats (listing raw_with_zero) = Val raw_with_zero" by (simp add: listing_def)
  have r: "get_available_formats (sim_env (probe_listing raw_with_zero) transfer_ok [] [])
       (py ''u1'') start
     = (Inr ([video_choice (mp4_format (py ''e'') 480) 480,
              video_choice (mp4_format (py ''d'') 360) 360,
              video_choice (mp4_format (py ''c'') 240) 240,
              video_choice (mp4_format (py ''b'') 144) 144,
              audio_mp3, audio_wav], listing raw_with_zero),
        \<lparr>world = 1, calls = [ExtractInfo (get_ydl_opts True) (py ''u1'')]\<rparr>)"
    unfolding get_available_formats_listed[OF probe_listing_info i ne] s
    by (simp add: h Let_def)
  from c r show ?thesis by simp
qed

end
